theory Spec2Isabelle
  imports Complex_Main
begin

section \<open>Data model\<close>

text \<open>
  The module \<^verbatim>\<open>cell_quality.py\<close> holds one function, \<^verbatim>\<open>quality(grid)\<close>. It coerces
  its argument to an unstructured grid, hands the grid's arrays to one of two native kernels
  chosen by the precision of the points, forces the score of every null cell to one and, for a
  grid that started as a structured grid, negates the scores.

  The function never looks inside a coordinate or a score: it only assigns the constant one and
  negates. Coordinates (\<open>'c\<close>) and scores (\<open>'a\<close>) are therefore kept abstract, so every
  theorem below holds for whatever the floating-point numbers of the kernels are.
\<close>

datatype dtype = Float64 | Float32 | OtherDtype string

text \<open>A numpy array of point coordinates: its element type and its (flattened) contents.\<close>

record 'c ndarray =
  dtype :: dtype
  coords :: "'c list"

text \<open>
  A \<^verbatim>\<open>pyvista.UnstructuredGrid\<close>: the points, one topology code per cell, and the
  connectivity and offset arrays of its cells.
\<close>

record 'c ugrid =
  points :: "'c ndarray"
  celltypes :: "nat list"
  cells :: "int list"
  offset :: "int list"

text \<open>
  What \<^verbatim>\<open>quality\<close> may be called with, by the two \<^verbatim>\<open>isinstance\<close> tests of the
  source: a structured grid (\<open>'s\<close>), an unstructured grid, or any other object (\<open>'o\<close>).
\<close>

datatype ('s, 'o, 'c) pyobj =
  StructuredGrid 's
| UnstructuredGrid "'c ugrid"
| Other 'o

text \<open>
  Modelled from the spec: the native kernels \<^verbatim>\<open>cell_quality\<close> and
  \<^verbatim>\<open>cell_quality_float\<close> of module \<^verbatim>\<open>_cellqual\<close> are not among the sources. By
  section 7 of the specification a kernel either returns one score per cell or fails as a
  whole, on a topology code it does not support or on an index that is out of bounds.
\<close>

datatype kernel_error = UnsupportedCellType nat | IndexOutOfBounds nat

text \<open>
  An exception that pyvista's \<^verbatim>\<open>wrap\<close> raises on an object it cannot wrap: the name of
  its class and its message.
\<close>

datatype pyexception = PyException string string

text \<open>
  The exceptions of a call: the \<^verbatim>\<open>TypeError\<close> that \<^verbatim>\<open>quality\<close> raises itself, the
  \<^verbatim>\<open>IndexError\<close> of numpy when a boolean mask and the array it indexes differ in length,
  an exception that leaves a kernel, and an exception that leaves \<^verbatim>\<open>wrap\<close>.
\<close>

datatype error =
  TypeError string
| IndexError
| KernelError kernel_error
| WrapError pyexception

text \<open>
  The collaborators of \<^verbatim>\<open>quality\<close> that live outside the module are parameters:
  pyvista's \<^verbatim>\<open>cast_to_unstructured_grid\<close> and \<^verbatim>\<open>wrap\<close>, the helper
  \<^verbatim>\<open>vtk_cell_info\<close>, the conversion of one coordinate to double precision that numpy's
  \<^verbatim>\<open>astype\<close> applies, and the two kernels. Of these, \<^verbatim>\<open>wrap\<close> and the kernels can
  raise.
\<close>

record ('s, 'o, 'c, 'a) env =
  cast_to_unstructured_grid :: "'s \<Rightarrow> 'c ugrid"
  wrap :: "'o \<Rightarrow> pyexception + ('s, 'o, 'c) pyobj"
  vtk_cell_info :: "'c ugrid \<Rightarrow> int list \<times> int list"
  to_float64 :: "dtype \<Rightarrow> 'c \<Rightarrow> 'c"
  cell_quality :: "int list \<Rightarrow> int list \<Rightarrow> nat list \<Rightarrow> 'c ndarray \<Rightarrow> kernel_error + 'a list"
  cell_quality_float :: "int list \<Rightarrow> int list \<Rightarrow> nat list \<Rightarrow> 'c ndarray \<Rightarrow> kernel_error + 'a list"

text \<open>One invocation of a kernel, with the arguments it was given.\<close>

datatype precision = Double | Single

datatype 'c call = KernelCall precision "int list" "int list" "nat list" "'c ndarray"

section \<open>The function \<^verbatim>\<open>quality\<close>\<close>

definition type_error_message :: string where
  "type_error_message = ''Input grid should be a pyvista or vtk UnstructuredGrid''"

text \<open>
  Lines 38 to 45: the grid that the rest of the function works on, and the flag \<^verbatim>\<open>flip\<close>.
  An exception of \<^verbatim>\<open>wrap\<close> at line 43 leaves the function before the test of line 44.
\<close>

definition coerce :: "('s, 'o, 'c, 'a) env \<Rightarrow> ('s, 'o, 'c) pyobj \<Rightarrow> error + ('c ugrid \<times> bool)" where
  "coerce e grid =
     (case grid of
        StructuredGrid s \<Rightarrow> Inr (cast_to_unstructured_grid e s, True)
      | UnstructuredGrid u \<Rightarrow> Inr (u, False)
      | Other x \<Rightarrow>
          (case wrap e x of
             Inl exn \<Rightarrow> Inl (WrapError exn)
           | Inr wrapped \<Rightarrow>
               (case wrapped of
                  UnstructuredGrid u \<Rightarrow> Inr (u, False)
                | _ \<Rightarrow> Inl (TypeError type_error_message))))"

text \<open>\<^verbatim>\<open>points.astype(np.float64)\<close>: a new array of double precision.\<close>

definition astype_float64 :: "('s, 'o, 'c, 'a) env \<Rightarrow> 'c ndarray \<Rightarrow> 'c ndarray" where
  "astype_float64 e p = \<lparr>dtype = Float64, coords = map (to_float64 e (dtype p)) (coords p)\<rparr>"

text \<open>
  Lines 47 to 56: the kernel that is invoked, with its arguments, and what it returns.
\<close>

definition dispatch ::
  "('s, 'o, 'c, 'a) env \<Rightarrow> 'c ugrid \<Rightarrow> 'c call \<times> (kernel_error + 'a list)" where
  "dispatch e grid =
     (let ctypes = celltypes grid;
          pts = points grid;
          (conn, offs) = vtk_cell_info e grid
      in if dtype pts = Float64 then
           (KernelCall Double conn offs ctypes pts, cell_quality e conn offs ctypes pts)
         else if dtype pts = Float32 then
           (KernelCall Single conn offs ctypes pts, cell_quality_float e conn offs ctypes pts)
         else
           (let pts = astype_float64 e pts
            in (KernelCall Double conn offs ctypes pts, cell_quality e conn offs ctypes pts)))"

text \<open>
  Line 59, \<^verbatim>\<open>qual[grid.celltypes == 0] = 1\<close>, on arrays of the same length.
\<close>

definition set_null :: "nat list \<Rightarrow> 'a::one list \<Rightarrow> 'a list" where
  "set_null ctypes qual = map (\<lambda>(c, q). if c = 0 then 1 else q) (zip ctypes qual)"

text \<open>
  Lines 58 to 62. numpy refuses a boolean mask whose length is not the length of the array.
\<close>

definition finish :: "nat list \<Rightarrow> bool \<Rightarrow> 'a::{one,uminus} list \<Rightarrow> error + 'a list" where
  "finish ctypes flip qual =
     (if length ctypes \<noteq> length qual then Inl IndexError
      else let qual = set_null ctypes qual
           in if flip then Inr (map uminus qual) else Inr qual)"

text \<open>
  An exception that leaves the kernel leaves \<^verbatim>\<open>quality\<close> too; a result of the kernel
  is finished by lines 58 to 62.
\<close>

definition deliver ::
  "nat list \<Rightarrow> bool \<Rightarrow> kernel_error + 'a::{one,uminus} list \<Rightarrow> error + 'a list" where
  "deliver ctypes flip r =
     (case r of Inl err \<Rightarrow> Inl (KernelError err) | Inr qual \<Rightarrow> finish ctypes flip qual)"

text \<open>
  The whole call: the kernel invocations it made, in order, and its outcome.
\<close>

definition quality_run ::
  "('s, 'o, 'c, 'a::{one,uminus}) env \<Rightarrow> ('s, 'o, 'c) pyobj \<Rightarrow> 'c call list \<times> (error + 'a list)" where
  "quality_run e grid =
     (case coerce e grid of
        Inl err \<Rightarrow> ([], Inl err)
      | Inr (g, flip) \<Rightarrow>
          (case dispatch e g of (c, r) \<Rightarrow> ([c], deliver (celltypes g) flip r)))"

definition quality ::
  "('s, 'o, 'c, 'a::{one,uminus}) env \<Rightarrow> ('s, 'o, 'c) pyobj \<Rightarrow> error + 'a list" where
  "quality e grid = snd (quality_run e grid)"

definition kernel_calls ::
  "('s, 'o, 'c, 'a::{one,uminus}) env \<Rightarrow> ('s, 'o, 'c) pyobj \<Rightarrow> 'c call list" where
  "kernel_calls e grid = fst (quality_run e grid)"

section \<open>The kernel, as the specification describes it\<close>

text \<open>
  Modelled from the spec: the kernel \<^verbatim>\<open>compute_quality(points, connectivity, offsets,
  cell_types)\<close> of section 4.1, whose native source (module \<^verbatim>\<open>_cellqual\<close>) is not among
  the sources. Only its dispatch is modelled: the supported topologies with their node counts,
  the score one of a cell of code zero (step 2), the failure on a code outside the supported
  set and on an index that is out of bounds (section 7), and the single pass over the cells
  that fails as a whole (section 5). The table of the supported codes (\<open>decode\<close>) and the
  geometric formula of each topology in each precision (\<open>evaluate\<close>), which is floating-point
  arithmetic on the coordinates of the nodes of a cell, are parameters.
\<close>

datatype topology = Line | Triangle | Quad | Tetrahedron | Pyramid | Wedge | Hexahedron

fun node_count :: "topology \<Rightarrow> nat" where
  "node_count Line = 2"
| "node_count Triangle = 3"
| "node_count Quad = 4"
| "node_count Tetrahedron = 4"
| "node_count Pyramid = 5"
| "node_count Wedge = 6"
| "node_count Hexahedron = 8"

record ('c, 'a) kernel_spec =
  decode :: "nat \<Rightarrow> topology option"
  evaluate :: "precision \<Rightarrow> topology \<Rightarrow> 'c list list \<Rightarrow> 'a"

text \<open>The three coordinates of point \<open>i\<close>, when the point set has such a point.\<close>

definition node_coords :: "'c ndarray \<Rightarrow> int \<Rightarrow> 'c list option" where
  "node_coords pts i =
     (if 0 \<le> i \<and> 3 * nat i + 3 \<le> length (coords pts)
      then Some (take 3 (drop (3 * nat i) (coords pts))) else None)"

text \<open>
  The \<open>n\<close> point indices of cell \<open>k\<close>: the slice of the connectivity buffer that starts at
  the cell's offset, when the buffers hold it.
\<close>

definition cell_nodes :: "int list \<Rightarrow> int list \<Rightarrow> nat \<Rightarrow> nat \<Rightarrow> int list option" where
  "cell_nodes conn offs k n =
     (if k < length offs \<and> 0 \<le> offs ! k \<and> nat (offs ! k) + n \<le> length conn
      then Some (take n (drop (nat (offs ! k)) conn)) else None)"

definition compute_cell ::
  "('c, 'a::one) kernel_spec \<Rightarrow> precision \<Rightarrow> 'c ndarray \<Rightarrow> int list \<Rightarrow> int list \<Rightarrow> nat \<Rightarrow> nat
     \<Rightarrow> kernel_error + 'a" where
  "compute_cell ks prec pts conn offs k code =
     (if code = 0 then Inr 1
      else case decode ks code of
             None \<Rightarrow> Inl (UnsupportedCellType code)
           | Some t \<Rightarrow>
               (case cell_nodes conn offs k (node_count t) of
                  None \<Rightarrow> Inl (IndexOutOfBounds k)
                | Some ids \<Rightarrow>
                    (case those (map (node_coords pts) ids) of
                       None \<Rightarrow> Inl (IndexOutOfBounds k)
                     | Some xs \<Rightarrow> Inr (evaluate ks prec t xs))))"

fun compute_cells ::
  "('c, 'a::one) kernel_spec \<Rightarrow> precision \<Rightarrow> 'c ndarray \<Rightarrow> int list \<Rightarrow> int list \<Rightarrow> nat \<Rightarrow> nat list
     \<Rightarrow> kernel_error + 'a list" where
  "compute_cells ks prec pts conn offs k [] = Inr []"
| "compute_cells ks prec pts conn offs k (code # rest) =
     (case compute_cell ks prec pts conn offs k code of
        Inl err \<Rightarrow> Inl err
      | Inr q \<Rightarrow>
          (case compute_cells ks prec pts conn offs (Suc k) rest of
             Inl err \<Rightarrow> Inl err
           | Inr qs \<Rightarrow> Inr (q # qs)))"

definition compute_quality ::
  "('c, 'a::one) kernel_spec \<Rightarrow> precision \<Rightarrow> 'c ndarray \<Rightarrow> int list \<Rightarrow> int list \<Rightarrow> nat list
     \<Rightarrow> kernel_error + 'a list" where
  "compute_quality ks prec pts conn offs ctypes = compute_cells ks prec pts conn offs 0 ctypes"

text \<open>
  The environment whose two kernels are the kernel of the specification, in double and in
  single precision.
\<close>

definition with_kernel ::
  "('c, 'a::one) kernel_spec \<Rightarrow> ('s, 'o, 'c, 'a) env \<Rightarrow> ('s, 'o, 'c, 'a) env" where
  "with_kernel ks e =
     e\<lparr>cell_quality := (\<lambda>conn offs ctypes pts. compute_quality ks Double pts conn offs ctypes),
       cell_quality_float := (\<lambda>conn offs ctypes pts. compute_quality ks Single pts conn offs ctypes)\<rparr>"




section \<open>The call on a store of arrays\<close>

text \<open>
  In Python the buffers of a grid are numpy arrays that the caller and the function share, and
  line 59 writes into an array in place. To follow what a call can change, the arrays live in a
  store, at addresses, and a grid refers to its buffers by address. A structured grid and an
  object that is no grid are one stored value each.
\<close>

datatype ('s, 'o, 'c, 'a) pyvalue =
  PointArray "'c ndarray"
| CodeArray "nat list"
| IndexArray "int list"
| ScoreArray "'a list"
| StructuredData 's
| ForeignData 'o

record ('s, 'o, 'c, 'a) heap =
  objects :: "nat \<Rightarrow> ('s, 'o, 'c, 'a) pyvalue option"
  next_addr :: nat

record uref =
  points_at :: nat
  celltypes_at :: nat
  cells_at :: nat
  offset_at :: nat

datatype gridref = StructuredRef nat | UnstructuredRef uref | OtherRef nat

text \<open>A new array gets the next free address; a write in place keeps the address.\<close>

definition alloc ::
  "('s, 'o, 'c, 'a) pyvalue \<Rightarrow> ('s, 'o, 'c, 'a) heap \<Rightarrow> nat \<times> ('s, 'o, 'c, 'a) heap" where
  "alloc v h =
     (next_addr h, h\<lparr>objects := (objects h)(next_addr h \<mapsto> v), next_addr := Suc (next_addr h)\<rparr>)"

definition overwrite ::
  "nat \<Rightarrow> ('s, 'o, 'c, 'a) pyvalue \<Rightarrow> ('s, 'o, 'c, 'a) heap \<Rightarrow> ('s, 'o, 'c, 'a) heap" where
  "overwrite a v h = h\<lparr>objects := (objects h)(a \<mapsto> v)\<rparr>"

fun as_points :: "('s, 'o, 'c, 'a) pyvalue option \<Rightarrow> 'c ndarray option" where
  "as_points (Some (PointArray p)) = Some p"
| "as_points _ = None"

fun as_codes :: "('s, 'o, 'c, 'a) pyvalue option \<Rightarrow> nat list option" where
  "as_codes (Some (CodeArray t)) = Some t"
| "as_codes _ = None"

fun as_indices :: "('s, 'o, 'c, 'a) pyvalue option \<Rightarrow> int list option" where
  "as_indices (Some (IndexArray c)) = Some c"
| "as_indices _ = None"

fun as_structured :: "('s, 'o, 'c, 'a) pyvalue option \<Rightarrow> 's option" where
  "as_structured (Some (StructuredData s)) = Some s"
| "as_structured _ = None"

fun as_foreign :: "('s, 'o, 'c, 'a) pyvalue option \<Rightarrow> 'o option" where
  "as_foreign (Some (ForeignData x)) = Some x"
| "as_foreign _ = None"

fun scores_of :: "('s, 'o, 'c, 'a) pyvalue option \<Rightarrow> 'a list" where
  "scores_of (Some (ScoreArray q)) = q"
| "scores_of _ = []"

text \<open>The grid that a reference stands for in a store, when its addresses hold such a grid.\<close>

definition load_ugrid :: "('s, 'o, 'c, 'a) heap \<Rightarrow> uref \<Rightarrow> 'c ugrid option" where
  "load_ugrid h r =
     (case as_points (objects h (points_at r)) of
        None \<Rightarrow> None
      | Some p \<Rightarrow>
     (case as_codes (objects h (celltypes_at r)) of
        None \<Rightarrow> None
      | Some t \<Rightarrow>
     (case as_indices (objects h (cells_at r)) of
        None \<Rightarrow> None
      | Some c \<Rightarrow>
     (case as_indices (objects h (offset_at r)) of
        None \<Rightarrow> None
      | Some f \<Rightarrow> Some \<lparr>points = p, celltypes = t, cells = c, offset = f\<rparr>))))"

definition load :: "('s, 'o, 'c, 'a) heap \<Rightarrow> gridref \<Rightarrow> ('s, 'o, 'c) pyobj option" where
  "load h r =
     (case r of
        StructuredRef a \<Rightarrow> map_option StructuredGrid (as_structured (objects h a))
      | UnstructuredRef u \<Rightarrow> map_option UnstructuredGrid (load_ugrid h u)
      | OtherRef a \<Rightarrow> map_option Other (as_foreign (objects h a)))"

text \<open>The addresses of a reference are in use: the caller's grid exists before the call.\<close>

definition allocated :: "('s, 'o, 'c, 'a) heap \<Rightarrow> gridref \<Rightarrow> bool" where
  "allocated h r =
     (case r of
        StructuredRef a \<Rightarrow> a < next_addr h
      | UnstructuredRef u \<Rightarrow>
          points_at u < next_addr h \<and> celltypes_at u < next_addr h
          \<and> cells_at u < next_addr h \<and> offset_at u < next_addr h
      | OtherRef a \<Rightarrow> a < next_addr h)"

text \<open>
  Modelled from the spec: the kernel, whose source is missing, is a pure function of the
  contents of its arguments that returns a new sequence of scores (sections 2 and 5: a pure,
  stateless function that does not mutate the input mesh). So are the collaborators
  \<^verbatim>\<open>cast_to_unstructured_grid\<close>, \<^verbatim>\<open>wrap\<close> and \<^verbatim>\<open>vtk_cell_info\<close>, which section 1
  leaves outside. On the store, the result of the kernel is therefore an array at a new
  address.

  The call itself, from the source: the arrays \<^verbatim>\<open>celltypes\<close>, \<^verbatim>\<open>points\<close>,
  \<^verbatim>\<open>cells\<close> and \<^verbatim>\<open>offset\<close> are only read, \<^verbatim>\<open>astype\<close> makes a new array, line 59
  writes into the array \<^verbatim>\<open>qual\<close> that the kernel returned, and \<^verbatim>\<open>-qual\<close> of line 61 is
  a new array again (\<open>finish_st\<close>, lines 58 to 62 on the store). The call returns the
  exception or the address of the array of the scores, and the store it leaves. A reference
  that names no grid in the store has no call.
\<close>

definition finish_st ::
  "nat list \<Rightarrow> bool \<Rightarrow> 'a::{one,uminus} list \<Rightarrow> ('s, 'o, 'c, 'a) heap
     \<Rightarrow> (error + nat) \<times> ('s, 'o, 'c, 'a) heap" where
  "finish_st ctypes flip result h =
     (case alloc (ScoreArray result) h of
        (qual, h1) \<Rightarrow>
          if length ctypes \<noteq> length (scores_of (objects h1 qual)) then (Inl IndexError, h1)
          else
            (let h2 = overwrite qual (ScoreArray (set_null ctypes (scores_of (objects h1 qual)))) h1
             in if flip then
                  (case alloc (ScoreArray (map uminus (scores_of (objects h2 qual)))) h2 of
                     (neg, h3) \<Rightarrow> (Inr neg, h3))
                else (Inr qual, h2)))"

definition quality_st ::
  "('s, 'o, 'c, 'a::{one,uminus}) env \<Rightarrow> gridref \<Rightarrow> ('s, 'o, 'c, 'a) heap
     \<Rightarrow> ((error + nat) \<times> ('s, 'o, 'c, 'a) heap) option" where
  "quality_st e r h =
     (case load h r of
        None \<Rightarrow> None
      | Some grid \<Rightarrow>
          Some
            (case coerce e grid of
               Inl err \<Rightarrow> (Inl err, h)
             | Inr (g, flip) \<Rightarrow>
                 (case snd (dispatch e g) of
                    Inl err \<Rightarrow> (Inl (KernelError err), h)
                  | Inr result \<Rightarrow> finish_st (celltypes g) flip result h)))"

text \<open>What the caller sees of an outcome: the exception, or the contents of the array.\<close>

definition outcome ::
  "('s, 'o, 'c, 'a) heap \<Rightarrow> error + nat \<Rightarrow> error + 'a list" where
  "outcome h res = (case res of Inl err \<Rightarrow> Inl err | Inr a \<Rightarrow> Inr (scores_of (objects h a)))"

section \<open>A concrete environment\<close>

text \<open>
  The examples run in one environment. A structured grid is named by the unstructured grid
  that pyvista's cast returns for it, any other object is a string, of which \<^verbatim>\<open>wrap\<close>
  turns two into grids, returns one as it is and raises on the rest,
  \<^verbatim>\<open>vtk_cell_info\<close> hands out the two buffers of the grid, and a conversion to double
  precision keeps the number. The topology
  codes are those of VTK. The geometric formulas are not modelled, so the kernel of the examples stands in for
  them with a fixed score for every cell that is not null.
\<close>

definition vtk_decode :: "nat \<Rightarrow> topology option" where
  "vtk_decode code =
     (if code = 3 then Some Line
      else if code = 5 then Some Triangle
      else if code = 9 then Some Quad
      else if code = 10 then Some Tetrahedron
      else if code = 12 then Some Hexahedron
      else if code = 13 then Some Wedge
      else if code = 14 then Some Pyramid
      else None)"

definition example_kernel :: "(real, real) kernel_spec" where
  "example_kernel = \<lparr>decode = vtk_decode, evaluate = (\<lambda>prec t xs. 1 / 2)\<rparr>"

text \<open>
  The points of a structured grid of two cells in a row, three by two by two points.
\<close>

definition two_cell_points :: "dtype \<Rightarrow> real ndarray" where
  "two_cell_points d =
     \<lparr>dtype = d,
      coords = [0, 0, 0,  1, 0, 0,  2, 0, 0,  0, 1, 0,  1, 1, 0,  2, 1, 0,
                0, 0, 1,  1, 0, 1,  2, 0, 1,  0, 1, 1,  1, 1, 1,  2, 1, 1]\<rparr>"

text \<open>
  The grid of two hexahedra in its flattened form, and the same grid with its second cell
  blanked: a blanked cell of a structured grid is an empty cell, of code zero and without
  nodes, in the flattened grid.
\<close>

definition two_hexahedra :: "dtype \<Rightarrow> real ugrid" where
  "two_hexahedra d =
     \<lparr>points = two_cell_points d,
      celltypes = [12, 12],
      cells = [0, 1, 4, 3, 6, 7, 10, 9,  1, 2, 5, 4, 7, 8, 11, 10],
      offset = [0, 8]\<rparr>"

definition blanked_grid :: "real ugrid" where
  "blanked_grid =
     \<lparr>points = two_cell_points Float64,
      celltypes = [12, 0],
      cells = [0, 1, 4, 3, 6, 7, 10, 9],
      offset = [0, 8]\<rparr>"

definition unable_to_wrap :: pyexception where
  "unable_to_wrap = PyException ''NotImplementedError'' ''Unable to wrap the object into a pyvista type.''"

definition example_env :: "(real ugrid, string, real, real) env" where
  "example_env =
     with_kernel example_kernel
       \<lparr>cast_to_unstructured_grid = (\<lambda>s. s),
        wrap = (\<lambda>x. if x = ''vtkUnstructuredGrid''
                      then Inr (UnstructuredGrid (two_hexahedra Float64))
                    else if x = ''vtkStructuredGrid''
                      then Inr (StructuredGrid (two_hexahedra Float64))
                    else if x = ''PolyData'' then Inr (Other x)
                    else Inl unable_to_wrap),
        vtk_cell_info = (\<lambda>g. (cells g, offset g)),
        to_float64 = (\<lambda>d x. x),
        cell_quality = (\<lambda>conn offs ctypes pts. Inr []),
        cell_quality_float = (\<lambda>conn offs ctypes pts. Inr [])\<rparr>"



text \<open>
  Two more stand-ins for the kernels. The first scores every cell, null or not, with one given
  number, as a kernel does that runs its formula on the nodes of a null cell too. The second is
  the kernel of the specification with a formula whose value is a given number.
\<close>

definition constant_kernel_env :: "real \<Rightarrow> (real ugrid, string, real, real) env" where
  "constant_kernel_env q =
     example_env
       \<lparr>cell_quality := (\<lambda>conn offs ctypes pts. Inr (map (\<lambda>c. q) ctypes)),
        cell_quality_float := (\<lambda>conn offs ctypes pts. Inr (map (\<lambda>c. q) ctypes))\<rparr>"


text \<open>
  A store that holds the four buffers of the two hexahedra, at the addresses 0 to 3, and the
  structured grid with the blanked cell, at address 4.
\<close>

definition example_heap :: "(real ugrid, string, real, real) heap" where
  "example_heap =
     \<lparr>objects =
        (\<lambda>a. if a = 0 then Some (PointArray (two_cell_points Float64))
             else if a = 1 then Some (CodeArray [12, 12])
             else if a = 2 then Some (IndexArray [0, 1, 4, 3, 6, 7, 10, 9,  1, 2, 5, 4, 7, 8, 11, 10])
             else if a = 3 then Some (IndexArray [0, 8])
             else if a = 4 then Some (StructuredData blanked_grid)
             else None),
      next_addr = 5\<rparr>"

definition example_ref :: gridref where
  "example_ref =
     UnstructuredRef \<lparr>points_at = 0, celltypes_at = 1, cells_at = 2, offset_at = 3\<rparr>"

section \<open>Properties of \<^verbatim>\<open>quality\<close>\<close>

subsection \<open>The steps of a call\<close>

lemma set_null_length: "length ctypes = length qual \<Longrightarrow> length (set_null ctypes qual) = length qual"
  by (simp add: set_null_def)

lemma set_null_nth:
  "length ctypes = length qual \<Longrightarrow> i < length qual \<Longrightarrow>
   set_null ctypes qual ! i = (if ctypes ! i = 0 then 1 else qual ! i)"
  by (simp add: set_null_def)

lemma quality_run_accepted:
  assumes "coerce e grid = Inr (g, flip)"
  shows "quality_run e grid = ([fst (dispatch e g)], deliver (celltypes g) flip (snd (dispatch e g)))"
  using assms by (simp add: quality_run_def split: prod.splits)

lemma coerce_structured: "coerce e (StructuredGrid s) = Inr (cast_to_unstructured_grid e s, True)"
  by (simp add: coerce_def)

lemma coerce_unstructured: "coerce e (UnstructuredGrid u) = Inr (u, False)"
  by (simp add: coerce_def)

lemmas quality_run_structured = quality_run_accepted [OF coerce_structured]
lemmas quality_run_unstructured = quality_run_accepted [OF coerce_unstructured]

lemma deliver_not_type_error: "deliver ctypes flip r \<noteq> Inl (TypeError msg)"
  by (simp add: deliver_def finish_def Let_def split: sum.splits)

subsection \<open>Null cells\<close>

text \<open>
  On a grid that is unstructured from the start, a null cell scores one whatever the kernel
  returned for it. On a structured grid the scores are negated after the null cells were set to
  one, so a null cell of the flattened grid scores minus one.
\<close>

lemma quality_unstructured_null:
  assumes "quality e (UnstructuredGrid u) = Inr out" and "i < length (celltypes u)"
    and "celltypes u ! i = 0"
  shows "length out = length (celltypes u) \<and> out ! i = 1"
  using assms
  by (auto simp: quality_def quality_run_unstructured deliver_def finish_def set_null_nth set_null_length
      split: sum.splits if_splits)

lemma quality_structured_null:
  assumes "quality e (StructuredGrid s) = Inr out"
    and "i < length (celltypes (cast_to_unstructured_grid e s))"
    and "celltypes (cast_to_unstructured_grid e s) ! i = 0"
  shows "out ! i = - 1"
  using assms
  by (auto simp: quality_def quality_run_structured deliver_def finish_def set_null_nth set_null_length
      split: sum.splits if_splits)

text \<open>The definitions that evaluate a call in the concrete environment.\<close>

lemmas example_defs =
  coerce_def dispatch_def deliver_def finish_def set_null_def astype_float64_def
  example_env_def with_kernel_def example_kernel_def two_cell_points_def two_hexahedra_def
  compute_quality_def compute_cell_def vtk_decode_def cell_nodes_def node_coords_def

text \<open>
  C1. The claim: every cell whose topology code is the null code gets the score one, also when
  the grid is a structured grid that was flattened and had the sign flip applied. The comment
  of line 58 says so, and the unstructured path does it (\<open>quality_unstructured_null\<close>), but
  line 61 negates the array after line 59 has set the null cells: on the structured grid of
  two cells whose second cell is blanked, the null cell scores minus one, also with a kernel
  that scores the null cell 5, so that line 59 does replace a score.
\<close>

theorem structured_null_cell_scores_minus_one:
  "quality example_env (StructuredGrid blanked_grid) = Inr [- (1 / 2), - 1]
   \<and> celltypes (cast_to_unstructured_grid example_env blanked_grid) ! 1 = 0
   \<and> quality example_env (UnstructuredGrid blanked_grid) = Inr [1 / 2, 1]
   \<and> snd (dispatch (constant_kernel_env 5) blanked_grid) = Inr [5, 5]
   \<and> quality (constant_kernel_env 5) (StructuredGrid blanked_grid) = Inr [- 5, - 1]
   \<and> quality (constant_kernel_env 5) (UnstructuredGrid blanked_grid) = Inr [5, 1]"
  by (simp add: quality_def quality_run_def blanked_grid_def constant_kernel_env_def example_defs)

subsection \<open>The sign flip\<close>




subsection \<open>The choice of the kernel\<close>

text \<open>
  C5. On an input that is accepted as a grid: points of double precision go to the
  double-precision kernel as they are, points of single precision go to the single-precision
  kernel as they are, and points of any other element type go to the double-precision kernel
  as the array that \<^verbatim>\<open>astype\<close> makes of them: an array of double precision that holds, in
  the same order, the conversion to double precision of each coordinate of the input, so that
  coordinates that the conversion keeps reach the kernel as they are. In every case one
  kernel is invoked, once, and the outcome of the call is what lines 58 to 62 make of its
  result.
\<close>

theorem precision_dispatch:
  fixes e :: "('s, 'o, 'c, 'a::{one,uminus}) env"
  assumes "coerce e grid = Inr (g, flip)" and "vtk_cell_info e g = (conn, offs)"
  shows "(dtype (points g) = Float64 \<longrightarrow>
            kernel_calls e grid = [KernelCall Double conn offs (celltypes g) (points g)]
            \<and> quality e grid =
                deliver (celltypes g) flip (cell_quality e conn offs (celltypes g) (points g)))
         \<and> (dtype (points g) = Float32 \<longrightarrow>
            kernel_calls e grid = [KernelCall Single conn offs (celltypes g) (points g)]
            \<and> quality e grid =
                deliver (celltypes g) flip (cell_quality_float e conn offs (celltypes g) (points g)))
         \<and> (dtype (points g) \<noteq> Float64 \<and> dtype (points g) \<noteq> Float32 \<longrightarrow>
            kernel_calls e grid =
              [KernelCall Double conn offs (celltypes g)
                 \<lparr>dtype = Float64,
                  coords = map (to_float64 e (dtype (points g))) (coords (points g))\<rparr>]
            \<and> quality e grid =
                deliver (celltypes g) flip
                  (cell_quality e conn offs (celltypes g)
                     \<lparr>dtype = Float64,
                      coords = map (to_float64 e (dtype (points g))) (coords (points g))\<rparr>)
            \<and> astype_float64 e (points g) =
                \<lparr>dtype = Float64,
                 coords = map (to_float64 e (dtype (points g))) (coords (points g))\<rparr>
            \<and> dtype (astype_float64 e (points g)) = Float64
            \<and> length (coords (astype_float64 e (points g))) = length (coords (points g))
            \<and> (\<forall>i<length (coords (points g)).
                  coords (astype_float64 e (points g)) ! i
                    = to_float64 e (dtype (points g)) (coords (points g) ! i))
            \<and> ((\<forall>c\<in>set (coords (points g)). to_float64 e (dtype (points g)) c = c) \<longrightarrow>
                  coords (astype_float64 e (points g)) = coords (points g)))
         \<and> length (kernel_calls e grid) = 1"
proof -
  have keep: "map f xs = xs" if "\<forall>c\<in>set xs. f c = c" for f :: "'c \<Rightarrow> 'c" and xs
    using that by (induction xs) simp_all
  from assms show ?thesis
    by (simp add: quality_def kernel_calls_def quality_run_accepted dispatch_def astype_float64_def
        Let_def keep)
qed

text \<open>
  One call for each of the three branches. In the third, the coordinates of the integer
  points reach the double-precision kernel unchanged.
\<close>

theorem precision_dispatch_witness:
  "coerce example_env (Other ''vtkUnstructuredGrid'') = Inr (two_hexahedra Float64, False)
   \<and> coerce example_env (StructuredGrid (two_hexahedra Float32)) = Inr (two_hexahedra Float32, True)
   \<and> coerce example_env (UnstructuredGrid (two_hexahedra (OtherDtype ''int64'')))
       = Inr (two_hexahedra (OtherDtype ''int64''), False)
   \<and> kernel_calls example_env (Other ''vtkUnstructuredGrid'')
       = [KernelCall Double (cells (two_hexahedra Float64)) (offset (two_hexahedra Float64))
            [12, 12] (two_cell_points Float64)]
   \<and> kernel_calls example_env (StructuredGrid (two_hexahedra Float32))
       = [KernelCall Single (cells (two_hexahedra Float32)) (offset (two_hexahedra Float32))
            [12, 12] (two_cell_points Float32)]
   \<and> map (to_float64 example_env (OtherDtype ''int64''))
         (coords (two_cell_points (OtherDtype ''int64'')))
       = coords (two_cell_points (OtherDtype ''int64''))
   \<and> kernel_calls example_env (UnstructuredGrid (two_hexahedra (OtherDtype ''int64'')))
       = [KernelCall Double (cells (two_hexahedra Float64)) (offset (two_hexahedra Float64))
            [12, 12]
            \<lparr>dtype = Float64, coords = coords (two_cell_points (OtherDtype ''int64''))\<rparr>]"
proof -
  have c1: "coerce example_env (Other ''vtkUnstructuredGrid'') = Inr (two_hexahedra Float64, False)"
    by (simp add: coerce_def example_env_def with_kernel_def)
  have c2: "coerce example_env (StructuredGrid (two_hexahedra Float32))
              = Inr (two_hexahedra Float32, True)"
    by (simp add: coerce_def example_env_def with_kernel_def)
  have c3: "coerce example_env (UnstructuredGrid (two_hexahedra (OtherDtype ''int64'')))
              = Inr (two_hexahedra (OtherDtype ''int64''), False)"
    by (simp add: coerce_def)
  have v: "vtk_cell_info example_env (two_hexahedra d) = (cells (two_hexahedra d), offset (two_hexahedra d))" for d
    by (simp add: example_env_def with_kernel_def)
  have k: "\<forall>c\<in>set (coords (two_cell_points (OtherDtype ''int64''))).
         to_float64 example_env (OtherDtype ''int64'') c = c"
    by (simp add: example_env_def with_kernel_def)
  show ?thesis
    using precision_dispatch [OF c1 v] precision_dispatch [OF c2 v] precision_dispatch [OF c3 v]
      c1 c2 c3 k
    by (simp add: two_hexahedra_def two_cell_points_def astype_float64_def example_env_def
        with_kernel_def)
qed

subsection \<open>Inputs that are no grids\<close>

text \<open>
  C6. The claim: an input that is neither a structured nor an unstructured grid and that cannot
  be wrapped into an unstructured grid raises the descriptive type error before a kernel is
  invoked. It fails for an object on which \<^verbatim>\<open>wrap\<close> itself raises: the exception of line 43
  leaves the function, and line 45 is not reached. In the concrete environment \<^verbatim>\<open>wrap\<close>
  raises a \<^verbatim>\<open>NotImplementedError\<close> on the string \<^verbatim>\<open>abc\<close>, and that is what the call
  raises.
\<close>

theorem unwrappable_object_raises_wrap_error:
  "wrap example_env ''abc'' = Inl (PyException ''NotImplementedError''
       ''Unable to wrap the object into a pyvista type.'')
   \<and> quality example_env (Other ''abc'') = Inl (WrapError (PyException ''NotImplementedError''
       ''Unable to wrap the object into a pyvista type.''))
   \<and> quality example_env (Other ''abc'') \<noteq> Inl (TypeError type_error_message)
   \<and> kernel_calls example_env (Other ''abc'') = []"
  by (simp add: quality_def kernel_calls_def quality_run_def coerce_def example_env_def
      with_kernel_def unable_to_wrap_def)

text \<open>
  C6, amended. An input that is neither a structured nor an unstructured grid, and that
  \<^verbatim>\<open>wrap\<close> does not turn into an unstructured grid, raises an exception before any kernel is
  invoked, and no scores are returned: the type error with its message when \<^verbatim>\<open>wrap\<close>
  returns an object that is no unstructured grid, and the exception of \<^verbatim>\<open>wrap\<close> when
  \<^verbatim>\<open>wrap\<close> raises.
\<close>

theorem non_grid_rejected:
  fixes e :: "('s, 'o, 'c, 'a::{one,uminus}) env"
  assumes "\<forall>u. wrap e x \<noteq> Inr (UnstructuredGrid u)"
  shows "kernel_calls e (Other x) = []
         \<and> quality e (Other x) =
             (case wrap e x of
                Inl exn \<Rightarrow> Inl (WrapError exn)
              | Inr wrapped \<Rightarrow> Inl (TypeError type_error_message))"
  using assms
  by (auto simp: quality_def kernel_calls_def quality_run_def coerce_def
      split: sum.splits pyobj.splits)

text \<open>
  An object that \<^verbatim>\<open>wrap\<close> turns into a structured grid, an object that \<^verbatim>\<open>wrap\<close> returns
  as it is, and an object on which \<^verbatim>\<open>wrap\<close> raises.
\<close>

theorem non_grid_rejected_witness:
  "(\<forall>u. wrap example_env ''vtkStructuredGrid'' \<noteq> Inr (UnstructuredGrid u))
   \<and> quality example_env (Other ''vtkStructuredGrid'')
       = Inl (TypeError ''Input grid should be a pyvista or vtk UnstructuredGrid'')
   \<and> kernel_calls example_env (Other ''vtkStructuredGrid'') = []
   \<and> (\<forall>u. wrap example_env ''PolyData'' \<noteq> Inr (UnstructuredGrid u))
   \<and> quality example_env (Other ''PolyData'')
       = Inl (TypeError ''Input grid should be a pyvista or vtk UnstructuredGrid'')
   \<and> kernel_calls example_env (Other ''PolyData'') = []
   \<and> (\<forall>u. wrap example_env ''a string'' \<noteq> Inr (UnstructuredGrid u))
   \<and> quality example_env (Other ''a string'') = Inl (WrapError unable_to_wrap)
   \<and> kernel_calls example_env (Other ''a string'') = []"
proof -
  have w1: "\<forall>u. wrap example_env ''vtkStructuredGrid'' \<noteq> Inr (UnstructuredGrid u)"
    by (simp add: example_env_def with_kernel_def)
  have w2: "\<forall>u. wrap example_env ''PolyData'' \<noteq> Inr (UnstructuredGrid u)"
    by (simp add: example_env_def with_kernel_def)
  have w3: "\<forall>u. wrap example_env ''a string'' \<noteq> Inr (UnstructuredGrid u)"
    by (simp add: example_env_def with_kernel_def)
  have v1: "wrap example_env ''vtkStructuredGrid'' = Inr (StructuredGrid (two_hexahedra Float64))"
    and v2: "wrap example_env ''PolyData'' = Inr (Other ''PolyData'')"
    and v3: "wrap example_env ''a string'' = Inl unable_to_wrap"
    by (simp_all add: example_env_def with_kernel_def)
  show ?thesis
    using non_grid_rejected [OF w1] non_grid_rejected [OF w2] non_grid_rejected [OF w3] w1 w2 w3
    by (simp add: v1 v2 v3 type_error_message_def)
qed

text \<open>
  C10. A structured grid never reaches the branch that raises the type error: it is cast, the
  flag is set, one kernel is invoked, and whatever the call raises is not the type error of
  \<^verbatim>\<open>quality\<close>.
\<close>

theorem structured_grid_accepted:
  fixes e :: "('s, 'o, 'c, 'a::{one,uminus}) env"
  shows "coerce e (StructuredGrid s) = Inr (cast_to_unstructured_grid e s, True)
   \<and> quality e (StructuredGrid s) \<noteq> Inl (TypeError msg)
   \<and> length (kernel_calls e (StructuredGrid s)) = 1"
  by (simp add: quality_def kernel_calls_def quality_run_structured coerce_structured
      deliver_not_type_error)

subsection \<open>Cells of an unsupported topology\<close>


lemma node_coords_length:
  "length (coords p) = length (coords q) \<Longrightarrow> (node_coords p i \<noteq> None) = (node_coords q i \<noteq> None)"
  by (simp add: node_coords_def)













subsection \<open>The call on the store\<close>

text \<open>
  Lines 58 to 62 write at new addresses only, and what they leave at the address they return
  is the list that \<open>finish\<close> computes.
\<close>

lemma finish_st_frame:
  "next_addr h \<le> next_addr (snd (finish_st ctypes flip result h))
   \<and> (\<forall>a<next_addr h. objects (snd (finish_st ctypes flip result h)) a = objects h a)"
  by (simp add: finish_st_def alloc_def overwrite_def Let_def)

lemma finish_st_outcome:
  "outcome (snd (finish_st ctypes flip result h)) (fst (finish_st ctypes flip result h))
     = finish ctypes flip result"
  by (simp add: finish_st_def finish_def outcome_def alloc_def overwrite_def Let_def)

lemma finish_st_result_allocated:
  "fst (finish_st ctypes flip result h) = Inr a \<Longrightarrow> a < next_addr (snd (finish_st ctypes flip result h))"
  by (simp add: finish_st_def alloc_def overwrite_def Let_def split: if_splits)

lemma quality_st_frame:
  assumes "quality_st e r h = Some (res, h')"
  shows "next_addr h \<le> next_addr h' \<and> (\<forall>a<next_addr h. objects h' a = objects h a)"
proof -
  from assms obtain grid where g: "load h r = Some grid"
    by (auto simp: quality_st_def split: option.splits)
  show ?thesis
  proof (cases "coerce e grid")
    case (Inl err)
    with assms g show ?thesis by (simp add: quality_st_def)
  next
    case (Inr p)
    obtain g' flip where p: "p = (g', flip)" by (cases p)
    show ?thesis
    proof (cases "snd (dispatch e g')")
      case (Inl err)
      with assms g Inr p show ?thesis by (simp add: quality_st_def)
    next
      case r: (Inr result)
      with assms g Inr p have "h' = snd (finish_st (celltypes g') flip result h)"
        by (simp add: quality_st_def)
      then show ?thesis using finish_st_frame by blast
    qed
  qed
qed

lemma quality_st_result_allocated:
  assumes "quality_st e r h = Some (Inr a, h')"
  shows "a < next_addr h'"
proof -
  from assms obtain grid where g: "load h r = Some grid"
    by (auto simp: quality_st_def split: option.splits)
  show ?thesis
  proof (cases "coerce e grid")
    case (Inl err)
    with assms g show ?thesis by (simp add: quality_st_def)
  next
    case (Inr p)
    obtain g' flip where p: "p = (g', flip)" by (cases p)
    show ?thesis
    proof (cases "snd (dispatch e g')")
      case (Inl err)
      with assms g Inr p show ?thesis by (simp add: quality_st_def)
    next
      case r: (Inr result)
      with assms g Inr p have "finish_st (celltypes g') flip result h = (Inr a, h')"
        by (simp add: quality_st_def)
      then have "fst (finish_st (celltypes g') flip result h) = Inr a"
        and "h' = snd (finish_st (celltypes g') flip result h)" by simp_all
      then show ?thesis using finish_st_result_allocated by blast
    qed
  qed
qed

text \<open>
  The call on the store and the call on values agree: a reference that names a grid has a
  call, and the caller sees the outcome that \<open>quality\<close> computes for the grid.
\<close>

lemma quality_st_value:
  assumes "load h r = Some grid"
  shows "\<exists>res h'. quality_st e r h = Some (res, h') \<and> outcome h' res = quality e grid"
proof (cases "coerce e grid")
  case (Inl err)
  with assms show ?thesis
    by (simp add: quality_st_def quality_def quality_run_def outcome_def)
next
  case (Inr p)
  obtain g flip where p: "p = (g, flip)" by (cases p)
  show ?thesis
  proof (cases "snd (dispatch e g)")
    case (Inl err)
    with assms Inr p show ?thesis
      by (simp add: quality_st_def quality_def quality_run_accepted outcome_def deliver_def)
  next
    case r: (Inr result)
    have "quality_st e r h = Some (fst (finish_st (celltypes g) flip result h),
                                   snd (finish_st (celltypes g) flip result h))"
      using assms Inr p r by (simp add: quality_st_def)
    moreover have "quality e grid = finish (celltypes g) flip result"
      using Inr p r by (simp add: quality_def quality_run_accepted deliver_def)
    ultimately show ?thesis using finish_st_outcome by metis
  qed
qed

lemma load_frame:
  assumes "allocated h r" and "\<forall>a<next_addr h. objects h' a = objects h a"
  shows "load h' r = load h r"
  using assms by (cases r) (simp_all add: load_def load_ugrid_def allocated_def cong: option.case_cong)

text \<open>
  C9. A call leaves the caller's grid as it was: every array that existed before the call has
  the contents it had, so the reference names the same grid after the call, and for an
  unstructured grid the point coordinates, the connectivity buffer, the offset buffer and the
  cell-type buffer are the arrays they were. This holds whether the call returns or raises.
\<close>

theorem input_grid_unchanged:
  fixes e :: "('s, 'o, 'c, 'a::{one,uminus}) env"
  assumes "allocated h r" and "quality_st e r h = Some (res, h')"
  shows "load h' r = load h r
         \<and> (\<forall>a<next_addr h. objects h' a = objects h a)
         \<and> (\<forall>u. r = UnstructuredRef u \<longrightarrow>
               objects h' (points_at u) = objects h (points_at u)
               \<and> objects h' (cells_at u) = objects h (cells_at u)
               \<and> objects h' (offset_at u) = objects h (offset_at u)
               \<and> objects h' (celltypes_at u) = objects h (celltypes_at u))"
proof -
  from quality_st_frame [OF assms(2)]
  have f: "\<forall>a<next_addr h. objects h' a = objects h a" by blast
  from load_frame [OF assms(1) f] have "load h' r = load h r" .
  moreover have "objects h' (points_at u) = objects h (points_at u)
               \<and> objects h' (cells_at u) = objects h (cells_at u)
               \<and> objects h' (offset_at u) = objects h (offset_at u)
               \<and> objects h' (celltypes_at u) = objects h (celltypes_at u)"
    if "r = UnstructuredRef u" for u
    using assms(1) f that by (simp add: allocated_def)
  ultimately show ?thesis using f by blast
qed

text \<open>
  A consequence for two calls in a row: the second call, in the store that the first call
  left, finds the grid as it was and returns what the first call returned, and it leaves the
  array of the first call as it was. This says that the function itself keeps nothing from
  one call to the next; the kernels and the helpers are functions here, so it says nothing
  about a state of their own.
\<close>

lemma quality_repeatable:
  fixes e :: "('s, 'o, 'c, 'a::{one,uminus}) env"
  assumes "allocated h r" and "quality_st e r h = Some (res1, h1)"
  shows "\<exists>res2 h2. quality_st e r h1 = Some (res2, h2)
           \<and> outcome h2 res2 = outcome h1 res1
           \<and> outcome h2 res1 = outcome h1 res1"
proof -
  from assms(2) obtain grid where g: "load h r = Some grid"
    by (auto simp: quality_st_def split: option.splits)
  from quality_st_frame [OF assms(2)]
  have f: "\<forall>a<next_addr h. objects h1 a = objects h a" by blast
  from load_frame [OF assms(1) f] g have g1: "load h1 r = Some grid" by simp
  from quality_st_value [OF g, of e] assms(2) have o1: "outcome h1 res1 = quality e grid" by simp
  from quality_st_value [OF g1, of e] obtain res2 h2
    where q2: "quality_st e r h1 = Some (res2, h2)" and o2: "outcome h2 res2 = quality e grid"
    by blast
  from quality_st_frame [OF q2] have f2: "\<forall>a<next_addr h1. objects h2 a = objects h1 a" by blast
  have "outcome h2 res1 = outcome h1 res1"
  proof (cases res1)
    case (Inl err)
    then show ?thesis by (simp add: outcome_def)
  next
    case (Inr a)
    with assms(2) have "a < next_addr h1" using quality_st_result_allocated by blast
    with f2 Inr show ?thesis by (simp add: outcome_def)
  qed
  with q2 o1 o2 show ?thesis by simp
qed

text \<open>The two hexahedra in the concrete store, before and after a call.\<close>

theorem input_grid_unchanged_witness:
  "allocated example_heap example_ref
   \<and> (\<exists>res h'. quality_st example_env example_ref example_heap = Some (res, h')
         \<and> outcome h' res = Inr [1 / 2, 1 / 2]
         \<and> load h' example_ref = Some (UnstructuredGrid (two_hexahedra Float64))
         \<and> objects h' 0 = Some (PointArray (two_cell_points Float64))
         \<and> objects h' 1 = Some (CodeArray [12, 12]))"
proof -
  have a: "allocated example_heap example_ref"
    by (simp add: allocated_def example_heap_def example_ref_def)
  have l: "load example_heap example_ref = Some (UnstructuredGrid (two_hexahedra Float64))"
    by (simp add: load_def load_ugrid_def example_heap_def example_ref_def two_hexahedra_def)
  have v: "quality example_env (UnstructuredGrid (two_hexahedra Float64)) = Inr [1 / 2, 1 / 2]"
    by (simp add: quality_def quality_run_def example_defs)
  from quality_st_value [OF l, of example_env] v obtain res h'
    where q: "quality_st example_env example_ref example_heap = Some (res, h')"
      and o: "outcome h' res = Inr [1 / 2, 1 / 2]"
    by auto
  from input_grid_unchanged [OF a q] l
  have "load h' example_ref = Some (UnstructuredGrid (two_hexahedra Float64))"
    and "objects h' 0 = objects example_heap 0" and "objects h' 1 = objects example_heap 1"
    by (simp_all add: example_heap_def)
  with a q o show ?thesis by (simp add: example_heap_def)
qed

subsection \<open>The range of the scores\<close>






text \<open>
  The example of the docstring calls \<^verbatim>\<open>quality\<close> on a structured grid and shows the score
  one for each of its cells. The kernel then scored each of these cells minus one: on a
  structured grid the scores that are returned and the scores of the kernel have opposite
  signs.
\<close>

lemma flipped_ones_were_minus_ones:
  fixes e :: "('s, 'o, 'c, 'a::ring_1) env"
  assumes "quality e (StructuredGrid s) = Inr out" and "\<forall>q\<in>set out. q = 1"
    and "snd (dispatch e (cast_to_unstructured_grid e s)) = Inr result"
    and "i < length result" and "celltypes (cast_to_unstructured_grid e s) ! i \<noteq> 0"
  shows "result ! i = - 1"
proof -
  let ?g = "cast_to_unstructured_grid e s"
  from assms(1,3) have len: "length (celltypes ?g) = length result"
    and out: "out = map uminus (set_null (celltypes ?g) result)"
    by (auto simp: quality_def quality_run_structured deliver_def finish_def split: if_splits)
  from out len assms(4,5) have "out ! i = - (result ! i)"
    by (simp add: set_null_nth set_null_length)
  moreover from out len assms(4) have "out ! i \<in> set out"
    by (simp add: set_null_length)
  ultimately have "- (result ! i) = 1" using assms(2) by auto
  then have "- (- (result ! i)) = - 1" by simp
  then show ?thesis by simp
qed

end
